theory Spec2Isabelle
  imports Main "HOL-Library.Sublist"
begin

section \<open>Python values, exceptions and the host\<close>

text \<open>
  The two source files are glue over a notebook host (IPython and its kernel). The
  embedding keeps every test the code itself performs (\<^verbatim>\<open>is None\<close>,
  \<^verbatim>\<open>hasattr\<close>, truthiness of \<^verbatim>\<open>get_ipython()\<close>, dictionary subscripts) as a
  branch, and passes the host explicitly as part of a \<open>world\<close>.
\<close>

datatype pyval =
    PyNone
  | PyStr string
  | PyDict "(string \<times> pyval) list"
  | PyTuple "pyval list"
  | PyClass string
  | PyObj nat
  | PyTraceback

text \<open>
  An exception in flight: the name of its class, its value and its traceback, the three
  things a \<^verbatim>\<open>with\<close> statement hands to \<^verbatim>\<open>__exit__\<close>.
\<close>

datatype exn = Exn (exn_class: string) (exn_value: pyval) (exn_tb: pyval)

text \<open>
  The exceptions the interpreter itself raises in these files. \<open>AttributeError T a\<close> is
  Python's "'T' object has no attribute 'a'"; \<open>NameError n\<close> is "name 'n' is not
  defined".
\<close>

definition AttributeError :: "string \<Rightarrow> string \<Rightarrow> exn" where
  "AttributeError tyname attr =
     Exn ''AttributeError'' (PyTuple [PyStr tyname, PyStr attr]) PyTraceback"

definition NameError :: "string \<Rightarrow> exn" where
  "NameError name = Exn ''NameError'' (PyStr name) PyTraceback"

definition KeyError :: "string \<Rightarrow> exn" where
  "KeyError key = Exn ''KeyError'' (PyStr key) PyTraceback"

definition TypeError :: "pyval \<Rightarrow> exn" where
  "TypeError v = Exn ''TypeError'' v PyTraceback"

definition TraitError :: "string \<Rightarrow> pyval \<Rightarrow> exn" where
  "TraitError trait v = Exn ''TraitError'' (PyTuple [PyStr trait, v]) PyTraceback"

text \<open>\<^verbatim>\<open>d[key]\<close> for a string key: a missing key raises, and so does a value that is no dict.\<close>

fun getitem :: "pyval \<Rightarrow> string \<Rightarrow> exn + pyval" where
  "getitem (PyDict kvs) key =
     (case map_of kvs key of None \<Rightarrow> Inl (KeyError key) | Some v \<Rightarrow> Inr v)"
| "getitem v key = Inl (TypeError v)"

text \<open>
  What the code touches of the host. A kernel has an identity, under which its comm
  manager's target table is stored in the world, and may or may not have the attribute
  \<^verbatim>\<open>_parent_header\<close> (\<open>None\<close> is "no such attribute", what \<^verbatim>\<open>hasattr\<close>
  tests). A shell may or may not have the attribute \<^verbatim>\<open>kernel\<close>, and an attribute
  that is there holds a kernel or Python's \<^verbatim>\<open>None\<close>: \<open>kernel sh\<close> is \<open>None\<close>
  without the attribute, \<open>Some None\<close> when its value is \<^verbatim>\<open>None\<close>, and
  \<open>Some (Some k)\<close> when it is the kernel \<open>k\<close>.
\<close>

record kernel =
  kernel_id :: nat
  parent_header :: "pyval option"

record shell =
  shell_class :: string
  kernel :: "kernel option option"

datatype handler = Widget_handle_comm_opened | Other_handler nat

datatype event =
    FlushStdout
  | FlushStderr
  | ShowTraceback pyval pyval pyval int
  | ClearOutput "pyval list" "(string \<times> pyval) list"
  | RegisterTarget nat string handler

text \<open>
  The world: the two synchronized traits of the \<^verbatim>\<open>Output\<close> widget under consideration
  (\<open>msg_id\<close>, and \<open>outputs\<close> as a reference to a tuple object in \<open>heap\<close>), and the
  host: the result of \<^verbatim>\<open>get_ipython()\<close> (\<open>ip\<close>, \<open>None\<close> outside IPython), the
  calls made to host facilities in order (\<open>events\<close>), the comm managers' target
  tables, and the display formatter.
\<close>

record world =
  msg_id :: string
  outputs :: nat
  heap :: "nat \<Rightarrow> pyval list"
  next_free :: nat
  ip :: "shell option"
  events :: "event list"
  comm_targets :: "nat \<Rightarrow> string \<Rightarrow> handler option"
  display_format :: "pyval \<Rightarrow> pyval \<times> pyval"

definition emit :: "event list \<Rightarrow> world \<Rightarrow> world" where
  "emit es w = w\<lparr>events := events w @ es\<rparr>"

text \<open>The tuple the \<^verbatim>\<open>outputs\<close> trait currently refers to.\<close>

definition outputs_value :: "world \<Rightarrow> pyval list" where
  "outputs_value w = heap w (outputs w)"

section \<open>widget\_output.py: the Output widget\<close>

text \<open>\<^verbatim>\<open>Output._flush\<close>: flush \<^verbatim>\<open>sys.stdout\<close>, then \<^verbatim>\<open>sys.stderr\<close>.\<close>

definition flush :: "world \<Rightarrow> world" where
  "flush w = emit [FlushStderr] (emit [FlushStdout] w)"

text \<open>
  Assignment to the \<^verbatim>\<open>Unicode\<close> trait \<^verbatim>\<open>msg_id\<close>: a value that is not a string is
  rejected by the trait's validation.
\<close>

definition set_msg_id :: "pyval \<Rightarrow> world \<Rightarrow> (exn + unit) \<times> world" where
  "set_msg_id v w =
     (case v of
        PyStr s \<Rightarrow> (Inr (), w\<lparr>msg_id := s\<rparr>)
      | _ \<Rightarrow> (Inl (TraitError ''msg_id'' v), w))"

text \<open>
  \<^verbatim>\<open>Output.__enter__\<close>. \<^verbatim>\<open>hasattr(None, '_parent_header')\<close> is false, so a
  \<^verbatim>\<open>kernel\<close> attribute that is \<^verbatim>\<open>None\<close> skips the assignment too.
\<close>

definition enter :: "world \<Rightarrow> (exn + unit) \<times> world" where
  "enter w =
     (let w1 = flush w in
      case ip w1 of
        None \<Rightarrow> (Inr (), w1)
      | Some sh \<Rightarrow>
          (case kernel sh of
             None \<Rightarrow> (Inr (), w1)
           | Some None \<Rightarrow> (Inr (), w1)
           | Some (Some k) \<Rightarrow>
               (case parent_header k of
                  None \<Rightarrow> (Inr (), w1)
                | Some ph \<Rightarrow>
                    (case getitem ph ''header'' of
                       Inl e \<Rightarrow> (Inl e, w1)
                     | Inr h \<Rightarrow>
                         (case getitem h ''msg_id'' of
                            Inl e \<Rightarrow> (Inl e, w1)
                          | Inr m \<Rightarrow> set_msg_id m w1)))))"

text \<open>
  \<^verbatim>\<open>Output.__exit__(etype, evalue, tb)\<close>. \<^verbatim>\<open>ip.showtraceback\<close> is looked up on
  whatever \<^verbatim>\<open>get_ipython()\<close> returned, \<^verbatim>\<open>None\<close> included.
\<close>

definition exit :: "pyval \<Rightarrow> pyval \<Rightarrow> pyval \<Rightarrow> world \<Rightarrow> (exn + bool) \<times> world" where
  "exit etype evalue tb w =
     (case (if etype \<noteq> PyNone
            then (case ip w of
                    None \<Rightarrow> Inl (AttributeError ''NoneType'' ''showtraceback'')
                  | Some sh \<Rightarrow> Inr (emit [ShowTraceback etype evalue tb 0] w))
            else Inr w) of
        Inl e \<Rightarrow> (Inl e, w)
      | Inr w1 \<Rightarrow> (Inr True, (flush w1)\<lparr>msg_id := []\<rparr>))"

text \<open>
  The second half of \<^verbatim>\<open>with self: body\<close>, once the body has run: \<^verbatim>\<open>__exit__\<close> is
  called with three \<^verbatim>\<open>None\<close>s after a normal completion and with the exception's
  triple otherwise; an exception is dropped if \<^verbatim>\<open>__exit__\<close> returns a true value, and an
  exception raised by \<^verbatim>\<open>__exit__\<close> itself replaces it. The result is \<open>Some v\<close> when the
  body completed with \<open>v\<close> and \<open>None\<close> when its exception was suppressed.
\<close>

definition leave :: "(exn + 'a) \<times> world \<Rightarrow> (exn + 'a option) \<times> world" where
  "leave rw =
     (case rw of
        (Inr v, w2) \<Rightarrow>
          (case exit PyNone PyNone PyNone w2 of
             (Inl e, w3) \<Rightarrow> (Inl e, w3)
           | (Inr b, w3) \<Rightarrow> (Inr (Some v), w3))
      | (Inl x, w2) \<Rightarrow>
          (case exit (PyClass (exn_class x)) (exn_value x) (exn_tb x) w2 of
             (Inl e, w3) \<Rightarrow> (Inl e, w3)
           | (Inr b, w3) \<Rightarrow> if b then (Inr None, w3) else (Inl x, w3)))"

text \<open>\<^verbatim>\<open>with self: body\<close>: if \<^verbatim>\<open>__enter__\<close> raises, the body and \<^verbatim>\<open>__exit__\<close> do not run.\<close>

definition with_self :: "(world \<Rightarrow> (exn + 'a) \<times> world) \<Rightarrow> world \<Rightarrow> (exn + 'a option) \<times> world" where
  "with_self body w =
     (case enter w of
        (Inl e, w1) \<Rightarrow> (Inl e, w1)
      | (Inr u, w1) \<Rightarrow> leave (body w1))"

text \<open>
  \<^verbatim>\<open>IPython.display.clear_output(*pargs, **kwargs)\<close>, a host facility with the
  signature \<^verbatim>\<open>clear_output(wait=False)\<close>: it takes no argument, one positional
  argument or the keyword \<^verbatim>\<open>wait\<close>, and any other call raises \<^verbatim>\<open>TypeError\<close>
  before anything is cleared. A call that is accepted is recorded with its arguments.
\<close>

fun clear_output_accepts :: "pyval list \<Rightarrow> (string \<times> pyval) list \<Rightarrow> bool" where
  "clear_output_accepts [] [] = True"
| "clear_output_accepts [v] [] = True"
| "clear_output_accepts [] [(key, v)] = (key = ''wait'')"
| "clear_output_accepts pargs kwargs = False"

definition IPython_clear_output ::
  "pyval list \<Rightarrow> (string \<times> pyval) list \<Rightarrow> world \<Rightarrow> (exn + unit) \<times> world" where
  "IPython_clear_output pargs kwargs w =
     (if clear_output_accepts pargs kwargs
      then (Inr (), emit [ClearOutput pargs kwargs] w)
      else (Inl (TypeError (PyStr ''clear_output'')), w))"

text \<open>\<^verbatim>\<open>Output.clear_output(*pargs, **kwargs)\<close>.\<close>

definition clear_output ::
  "pyval list \<Rightarrow> (string \<times> pyval) list \<Rightarrow> world \<Rightarrow> (exn + unit) \<times> world" where
  "clear_output pargs kwargs w =
     (case with_self (IPython_clear_output pargs kwargs) w of
        (Inl e, w1) \<Rightarrow> (Inl e, w1)
      | (Inr r, w1) \<Rightarrow> (Inr (), w1))"

text \<open>
  \<^verbatim>\<open>Output.capture(clear_output, *outer_args, **outer_kwargs)(func)\<close> is the closure
  \<^verbatim>\<open>inner\<close>; \<open>func\<close> stands for the wrapped function applied to the call's arguments.
  \<^verbatim>\<open>return func(...)\<close> inside the \<^verbatim>\<open>with\<close> returns the function's value; after a
  suppressed exception control falls off the end of \<^verbatim>\<open>inner\<close>, which returns
  \<^verbatim>\<open>None\<close> (\<open>fall_off_end\<close>).
\<close>

definition fall_off_end :: "(exn + pyval option) \<times> world \<Rightarrow> (exn + pyval) \<times> world" where
  "fall_off_end rw =
     (case rw of
        (Inl e, w2) \<Rightarrow> (Inl e, w2)
      | (Inr (Some v), w2) \<Rightarrow> (Inr v, w2)
      | (Inr None, w2) \<Rightarrow> (Inr PyNone, w2))"

definition inner ::
  "bool \<Rightarrow> pyval list \<Rightarrow> (string \<times> pyval) list \<Rightarrow> (world \<Rightarrow> (exn + pyval) \<times> world)
     \<Rightarrow> world \<Rightarrow> (exn + pyval) \<times> world" where
  "inner clear outer_args outer_kwargs func w =
     (case (if clear then clear_output outer_args outer_kwargs w else (Inr (), w)) of
        (Inl e, w1) \<Rightarrow> (Inl e, w1)
      | (Inr u, w1) \<Rightarrow> fall_off_end (with_self func w1))"

text \<open>
  The parameter \<^verbatim>\<open>clear_output\<close> of \<^verbatim>\<open>capture\<close> defaults to \<^verbatim>\<open>True\<close>:
  \<open>None\<close> is the call that leaves it out.
\<close>

definition capture ::
  "bool option \<Rightarrow> pyval list \<Rightarrow> (string \<times> pyval) list \<Rightarrow> (world \<Rightarrow> (exn + pyval) \<times> world)
     \<Rightarrow> world \<Rightarrow> (exn + pyval) \<times> world" where
  "capture clear_arg outer_args outer_kwargs =
     (let clear = (case clear_arg of None \<Rightarrow> True | Some b \<Rightarrow> b)
      in (\<lambda>func. inner clear outer_args outer_kwargs func))"

text \<open>
  \<^verbatim>\<open>self.outputs += t\<close>: tuples have no in-place addition, so this is
  \<^verbatim>\<open>self.outputs = self.outputs + t\<close>: a new tuple object is built and the trait is
  rebound to it.
\<close>

definition outputs_iadd :: "pyval list \<Rightarrow> world \<Rightarrow> world" where
  "outputs_iadd t w =
     (let new = heap w (outputs w) @ t; a = next_free w
      in w\<lparr>outputs := a, heap := (heap w)(a := new), next_free := Suc a\<rparr>)"

text \<open>\<^verbatim>\<open>Output._append_stream_output(text, stream_name)\<close>.\<close>

definition append_stream_output :: "pyval \<Rightarrow> string \<Rightarrow> world \<Rightarrow> world" where
  "append_stream_output text stream_name w =
     outputs_iadd
       [PyDict [(''output_type'', PyStr ''stream''), (''name'', PyStr stream_name),
                (''text'', text)]] w"

definition append_stdout :: "pyval \<Rightarrow> world \<Rightarrow> world" where
  "append_stdout text w = append_stream_output text ''stdout'' w"

definition append_stderr :: "pyval \<Rightarrow> world \<Rightarrow> world" where
  "append_stderr text w = append_stream_output text ''stderr'' w"

text \<open>
  \<^verbatim>\<open>Output.append_display_data(display_object)\<close>; \<open>display_format\<close> is
  \<^verbatim>\<open>InteractiveShell.instance().display_formatter.format\<close>.
\<close>

definition append_display_data :: "pyval \<Rightarrow> world \<Rightarrow> world" where
  "append_display_data display_object w =
     (let fmt = display_format w;
          (data, metadata) = fmt display_object
      in outputs_iadd
           [PyDict [(''output_type'', PyStr ''display_data''), (''data'', data),
                    (''metadata'', metadata)]] w)"

section \<open>\_\_init\_\_.py: the package entry point\<close>

text \<open>
  \<^verbatim>\<open>kernel.comm_manager.register_target(name, f)\<close>, a host facility: the call is
  recorded and the comm manager's table of that kernel is updated.
\<close>

definition register_target :: "nat \<Rightarrow> string \<Rightarrow> handler \<Rightarrow> world \<Rightarrow> world" where
  "register_target kid name f w =
     (emit [RegisterTarget kid name f] w)
       \<lparr>comm_targets := (comm_targets w)(kid := (comm_targets w kid)(name \<mapsto> f))\<rparr>"

text \<open>
  \<^verbatim>\<open>register_comm_target(kernel=None)\<close>. In the \<^verbatim>\<open>None\<close> branch the kernel of
  \<^verbatim>\<open>get_ipython()\<close> is bound to the local \<^verbatim>\<open>ip\<close>; the registration that follows
  reads the parameter \<^verbatim>\<open>kernel\<close>.
\<close>

definition register_comm_target :: "kernel option \<Rightarrow> world \<Rightarrow> (exn + unit) \<times> world" where
  "register_comm_target kernel_arg w =
     (case (case kernel_arg of
              None \<Rightarrow>
                (case ip w of
                   None \<Rightarrow> Inl (AttributeError ''NoneType'' ''kernel'')
                 | Some sh \<Rightarrow>
                     (case kernel sh of
                        None \<Rightarrow> Inl (AttributeError (shell_class sh) ''kernel'')
                      | Some ip_local \<Rightarrow> Inr ()))
            | Some k \<Rightarrow> Inr ()) of
        Inl e \<Rightarrow> (Inl e, w)
      | Inr u \<Rightarrow>
          (case kernel_arg of
             None \<Rightarrow> (Inl (AttributeError ''NoneType'' ''comm_manager''), w)
           | Some k \<Rightarrow>
               (Inr (), register_target (kernel_id k) ''ipython.widget''
                          Widget_handle_comm_opened w)))"

text \<open>
  \<^verbatim>\<open>load_ipython_extension(ip)\<close>: the value of the attribute \<^verbatim>\<open>kernel\<close> is passed
  on as it is, \<^verbatim>\<open>None\<close> included.
\<close>

definition load_ipython_extension :: "shell \<Rightarrow> world \<Rightarrow> (exn + unit) \<times> world" where
  "load_ipython_extension sh w =
     (case kernel sh of
        None \<Rightarrow> (Inr (), w)
      | Some kernel_value \<Rightarrow>
          (case register_comm_target kernel_value w of
             (Inl e, w1) \<Rightarrow> (Inl e, w1)
           | (Inr u, w1) \<Rightarrow> (Inr (), w1)))"

text \<open>\<^verbatim>\<open>_handle_ipython()\<close>, run when the package is imported.\<close>

definition handle_ipython :: "world \<Rightarrow> (exn + unit) \<times> world" where
  "handle_ipython w =
     (case ip w of
        None \<Rightarrow> (Inr (), w)
      | Some sh \<Rightarrow> load_ipython_extension sh w)"

text \<open>
  Modelled from the spec: the names that \<^verbatim>\<open>from .widgets import *\<close> binds come from
  \<^verbatim>\<open>widgets/__init__.py\<close>, which is not among the source files. The module's global
  namespace below holds the names \<^verbatim>\<open>__init__.py\<close> binds itself, the module attributes
  every package has, and, of the star import, the subpackage and the one name the file
  uses (\<^verbatim>\<open>Widget\<close>); as the spec has it, \<^verbatim>\<open>path\<close> is not among them.
\<close>

definition module_globals :: "(string \<times> pyval) list" where
  "module_globals =
     [(''__name__'', PyStr ''ipywidgets''), (''__doc__'', PyNone),
      (''__package__'', PyStr ''ipywidgets''), (''__file__'', PyObj 0),
      (''__path__'', PyObj 1), (''__builtins__'', PyObj 2),
      (''os'', PyObj 3), (''get_ipython'', PyObj 4), (''widgets'', PyObj 5),
      (''Widget'', PyClass ''Widget''),
      (''find_static_assets'', PyObj 6), (''load_ipython_extension'', PyObj 7),
      (''register_comm_target'', PyObj 8), (''handle_kernel'', PyObj 8),
      (''_handle_ipython'', PyObj 9)]"

text \<open>The names of Python's built-in functions and constants, searched after the globals.\<close>

definition builtin_names :: "string list" where
  "builtin_names =
     [''abs'', ''all'', ''any'', ''ascii'', ''bin'', ''bool'', ''bytearray'', ''bytes'',
      ''callable'', ''chr'', ''classmethod'', ''compile'', ''complex'', ''delattr'',
      ''dict'', ''dir'', ''divmod'', ''enumerate'', ''eval'', ''exec'', ''filter'',
      ''float'', ''format'', ''frozenset'', ''getattr'', ''globals'', ''hasattr'',
      ''hash'', ''help'', ''hex'', ''id'', ''input'', ''int'', ''isinstance'',
      ''issubclass'', ''iter'', ''len'', ''list'', ''locals'', ''map'', ''max'',
      ''memoryview'', ''min'', ''next'', ''object'', ''oct'', ''open'', ''ord'', ''pow'',
      ''print'', ''property'', ''range'', ''repr'', ''reversed'', ''round'', ''set'',
      ''setattr'', ''slice'', ''sorted'', ''staticmethod'', ''str'', ''sum'', ''super'',
      ''tuple'', ''type'', ''vars'', ''zip'', ''__import__'', ''None'', ''True'',
      ''False'', ''Ellipsis'', ''NotImplemented'', ''__debug__'']"

text \<open>
  Reading a name that the function does not assign: the module's globals, then the
  built-ins, then \<^verbatim>\<open>NameError\<close>.
\<close>

definition load_global :: "string \<Rightarrow> exn + pyval" where
  "load_global name =
     (case map_of module_globals name of
        Some v \<Rightarrow> Inr v
      | None \<Rightarrow>
          if name \<in> set builtin_names then Inr (PyObj 100) else Inl (NameError name))"

text \<open>
  The functions of \<^verbatim>\<open>os.path\<close> the module calls, supplied by the host like the
  other host facilities.
\<close>

record os_path =
  abspath :: "pyval \<Rightarrow> pyval"
  dirname :: "pyval \<Rightarrow> pyval"
  join :: "pyval \<Rightarrow> pyval \<Rightarrow> pyval"

text \<open>
  \<^verbatim>\<open>find_static_assets()\<close>. \<^verbatim>\<open>here\<close> is the function's only local; \<^verbatim>\<open>__file__\<close>
  and \<^verbatim>\<open>path\<close> are read as globals.
\<close>

definition find_static_assets :: "os_path \<Rightarrow> exn + pyval" where
  "find_static_assets os =
     (case load_global ''__file__'' of
        Inl e \<Rightarrow> Inl e
      | Inr file \<Rightarrow>
          (let here = abspath os file in
           case load_global ''path'' of
             Inl e \<Rightarrow> Inl e
           | Inr p \<Rightarrow> Inr (join os (dirname os p) (PyStr ''static''))))"

section \<open>Derived notions and example worlds\<close>

text \<open>
  What the guard of \<^verbatim>\<open>__enter__\<close> looks for: the value of \<^verbatim>\<open>_parent_header\<close>,
  present when \<^verbatim>\<open>get_ipython()\<close> is a shell whose \<^verbatim>\<open>kernel\<close> has that attribute.
\<close>

definition kernel_context :: "world \<Rightarrow> pyval option" where
  "kernel_context w =
     (case ip w of
        None \<Rightarrow> None
      | Some sh \<Rightarrow>
          (case kernel sh of
             None \<Rightarrow> None
           | Some None \<Rightarrow> None
           | Some (Some k) \<Rightarrow> parent_header k))"

text \<open>The \<^verbatim>\<open>outputs\<close> trait refers to a tuple object that has been allocated.\<close>

definition wf_world :: "world \<Rightarrow> bool" where
  "wf_world w = (outputs w < next_free w)"

text \<open>A freshly created widget outside IPython: \<^verbatim>\<open>get_ipython()\<close> is \<^verbatim>\<open>None\<close>.\<close>

definition plain_world :: world where
  "plain_world =
     \<lparr>msg_id = [], outputs = 0, heap = (\<lambda>a. []), next_free = 1, ip = None, events = [],
      comm_targets = (\<lambda>kid name. None),
      display_format = (\<lambda>v. (PyDict [(''text/plain'', v)], PyDict []))\<rparr>"

text \<open>A terminal IPython session: a shell without the attribute \<^verbatim>\<open>kernel\<close>.\<close>

definition terminal_shell :: shell where
  "terminal_shell = \<lparr>shell_class = ''TerminalInteractiveShell'', kernel = None\<rparr>"

definition terminal_world :: world where
  "terminal_world = plain_world\<lparr>ip := Some terminal_shell\<rparr>"

text \<open>A notebook kernel that is handling the request with message id \<open>req-1\<close>.\<close>

definition notebook_kernel :: kernel where
  "notebook_kernel =
     \<lparr>kernel_id = 7,
      parent_header =
        Some (PyDict [(''header'', PyDict [(''msg_id'', PyStr ''req-1''),
                                           (''msg_type'', PyStr ''execute_request'')]),
                      (''content'', PyDict [])])\<rparr>"

definition notebook_shell :: shell where
  "notebook_shell =
     \<lparr>shell_class = ''ZMQInteractiveShell'', kernel = Some (Some notebook_kernel)\<rparr>"

definition notebook_world :: world where
  "notebook_world = plain_world\<lparr>ip := Some notebook_shell\<rparr>"

text \<open>A kernel shell whose \<^verbatim>\<open>kernel\<close> attribute has not been set: it is \<^verbatim>\<open>None\<close>.\<close>

definition detached_shell :: shell where
  "detached_shell = \<lparr>shell_class = ''ZMQInteractiveShell'', kernel = Some None\<rparr>"

definition detached_world :: world where
  "detached_world = plain_world\<lparr>ip := Some detached_shell\<rparr>"

text \<open>A kernel that has handled no request yet: its \<^verbatim>\<open>_parent_header\<close> is \<^verbatim>\<open>{}\<close>.\<close>

definition fresh_kernel :: kernel where
  "fresh_kernel = \<lparr>kernel_id = 8, parent_header = Some (PyDict [])\<rparr>"

definition fresh_shell :: shell where
  "fresh_shell = \<lparr>shell_class = ''ZMQInteractiveShell'', kernel = Some (Some fresh_kernel)\<rparr>"

definition fresh_world :: world where
  "fresh_world = plain_world\<lparr>ip := Some fresh_shell\<rparr>"

text \<open>The notebook world after the widget has buffered one line of standard output.\<close>

definition buffered_world :: world where
  "buffered_world = append_stdout (PyStr ''old'') notebook_world"

text \<open>
  A wrapped function that raises, one that prints to the widget and returns, and one that
  returns the records it finds in the widget's buffer.
\<close>

definition peek_func :: "world \<Rightarrow> (exn + pyval) \<times> world" where
  "peek_func w = (Inr (PyTuple (outputs_value w)), w)"

definition raising_func :: "world \<Rightarrow> (exn + pyval) \<times> world" where
  "raising_func w = (Inl (Exn ''ValueError'' (PyStr ''boom'') PyTraceback), w)"

definition printing_func :: "world \<Rightarrow> (exn + pyval) \<times> world" where
  "printing_func w = (Inr (PyStr ''done''), append_stdout (PyStr ''hello'') w)"

section \<open>The outputs buffer\<close>

lemma outputs_iadd_value: "outputs_value (outputs_iadd t w) = outputs_value w @ t"
  by (simp add: outputs_iadd_def outputs_value_def Let_def)

lemma outputs_iadd_fresh:
  "outputs (outputs_iadd t w) = next_free w"
  "next_free (outputs_iadd t w) = Suc (next_free w)"
  "a \<noteq> next_free w \<Longrightarrow> heap (outputs_iadd t w) a = heap w a"
  by (simp_all add: outputs_iadd_def Let_def)

lemma append_ops_are_iadd:
  "append_stdout t w =
     outputs_iadd [PyDict [(''output_type'', PyStr ''stream''), (''name'', PyStr ''stdout''),
                           (''text'', t)]] w"
  "append_stderr t w =
     outputs_iadd [PyDict [(''output_type'', PyStr ''stream''), (''name'', PyStr ''stderr''),
                           (''text'', t)]] w"
  "append_display_data obj w =
     outputs_iadd [PyDict [(''output_type'', PyStr ''display_data''),
                           (''data'', fst (display_format w obj)),
                           (''metadata'', snd (display_format w obj))]] w"
  by (simp_all add: append_stdout_def append_stderr_def append_stream_output_def
        append_display_data_def Let_def split: prod.splits)

text \<open>
  C2. For every text (a string \<open>s\<close> is the value \<open>PyStr s\<close>), \<open>append_stdout\<close>
  extends the outputs buffer by exactly one record, the dict with the three keys
  \<^verbatim>\<open>output_type\<close>, \<^verbatim>\<open>name\<close>, \<^verbatim>\<open>text\<close> holding \<^verbatim>\<open>'stream'\<close>, \<^verbatim>\<open>'stdout'\<close>
  and the text; \<open>append_stderr\<close> does the same with the name \<^verbatim>\<open>'stderr'\<close>.
\<close>

theorem append_stream_records:
  "outputs_value (append_stdout text w) =
     outputs_value w @
       [PyDict [(''output_type'', PyStr ''stream''), (''name'', PyStr ''stdout''),
                (''text'', text)]]
   \<and> outputs_value (append_stderr text w) =
     outputs_value w @
       [PyDict [(''output_type'', PyStr ''stream''), (''name'', PyStr ''stderr''),
                (''text'', text)]]"
  by (simp add: append_stdout_def append_stderr_def append_stream_output_def
        outputs_iadd_value)

text \<open>
  C3. For every display object, \<open>append_display_data\<close> extends the outputs buffer by
  exactly one record, the dict with \<^verbatim>\<open>output_type\<close> \<^verbatim>\<open>'display_data'\<close> and, under
  \<^verbatim>\<open>data\<close> and \<^verbatim>\<open>metadata\<close>, the two components of what the host's display
  formatter returns for the object.
\<close>

theorem append_display_data_record:
  "outputs_value (append_display_data obj w) =
     outputs_value w @
       [PyDict [(''output_type'', PyStr ''display_data''),
                (''data'', fst (display_format w obj)),
                (''metadata'', snd (display_format w obj))]]"
  by (simp add: append_display_data_def outputs_iadd_value Let_def split: prod.splits)

lemma outputs_iadd_replaces:
  assumes "wf_world w"
  shows "outputs (outputs_iadd [r] w) \<noteq> outputs w
     \<and> outputs_value (outputs_iadd [r] w) = outputs_value w @ [r]
     \<and> length (outputs_value (outputs_iadd [r] w)) = Suc (length (outputs_value w))
     \<and> strict_prefix (outputs_value w) (outputs_value (outputs_iadd [r] w))
     \<and> heap (outputs_iadd [r] w) (outputs w) = outputs_value w
     \<and> (\<forall>a < next_free w. heap (outputs_iadd [r] w) a = heap w a)
     \<and> wf_world (outputs_iadd [r] w)"
proof -
  from assms have ne: "outputs w \<noteq> next_free w"
    by (simp add: wf_world_def)
  have v: "outputs_value (outputs_iadd [r] w) = outputs_value w @ [r]"
    by (rule outputs_iadd_value)
  have old: "heap (outputs_iadd [r] w) (outputs w) = outputs_value w"
    using ne by (simp add: outputs_iadd_fresh outputs_value_def)
  have others: "\<forall>a < next_free w. heap (outputs_iadd [r] w) a = heap w a"
    by (simp add: outputs_iadd_fresh)
  have wf: "wf_world (outputs_iadd [r] w)"
    by (simp add: wf_world_def outputs_iadd_fresh)
  show ?thesis
    using ne v old others wf by (simp add: outputs_iadd_fresh strict_prefix_def)
qed

lemma wf_plain_world: "wf_world plain_world"
  by (simp add: wf_world_def plain_world_def)

text \<open>The three append operations keep the world well formed.\<close>

lemma append_preserves_wf:
  assumes "wf_world w"
  shows "wf_world (append_stdout t w)" "wf_world (append_stderr t w)"
    "wf_world (append_display_data obj w)"
  using outputs_iadd_replaces [OF assms] by (simp_all add: append_ops_are_iadd)

text \<open>
  C4. Each of \<open>append_stdout\<close>, \<open>append_stderr\<close> and \<open>append_display_data\<close> rebinds
  the \<^verbatim>\<open>outputs\<close> trait to a new tuple object whose value is the previous value
  followed by one record: it is strictly longer, the previous value is a proper prefix
  of it (records and order kept), and the tuple object the trait referred to before, like
  every object allocated before, still holds the value it held.
\<close>

theorem append_replaces_outputs:
  assumes "wf_world w"
    and "w' = append_stdout t w \<or> w' = append_stderr t w \<or> w' = append_display_data obj w"
  shows "outputs w' \<noteq> outputs w
     \<and> (\<exists>r. outputs_value w' = outputs_value w @ [r])
     \<and> length (outputs_value w) < length (outputs_value w')
     \<and> strict_prefix (outputs_value w) (outputs_value w')
     \<and> heap w' (outputs w) = outputs_value w
     \<and> (\<forall>a < next_free w. heap w' a = heap w a)"
proof -
  from assms(2) obtain r where "w' = outputs_iadd [r] w"
    using append_ops_are_iadd by metis
  with outputs_iadd_replaces [OF assms(1), of r] show ?thesis
    by auto
qed

theorem append_replaces_outputs_witness:
  "wf_world plain_world
   \<and> outputs (append_stdout (PyStr ''hello'') plain_world) \<noteq> outputs plain_world
   \<and> length (outputs_value plain_world)
       < length (outputs_value (append_stdout (PyStr ''hello'') plain_world))
   \<and> strict_prefix (outputs_value plain_world)
       (outputs_value (append_stdout (PyStr ''hello'') plain_world))
   \<and> heap (append_stdout (PyStr ''hello'') plain_world) (outputs plain_world)
       = outputs_value plain_world"
  using append_replaces_outputs
          [OF wf_plain_world, of "append_stdout (PyStr ''hello'') plain_world"
             "PyStr ''hello''" PyNone]
    wf_plain_world
  by simp

section \<open>Entering and leaving the capture scope\<close>

lemma flush_simps:
  "events (flush w) = events w @ [FlushStdout, FlushStderr]"
  "msg_id (flush w) = msg_id w"
  "ip (flush w) = ip w"
  "outputs (flush w) = outputs w"
  "heap (flush w) = heap w"
  "next_free (flush w) = next_free w"
  by (simp_all add: flush_def emit_def)

lemma enter_events: "events (snd (enter w)) = events w @ [FlushStdout, FlushStderr]"
  by (simp add: enter_def Let_def set_msg_id_def flush_simps
        split: option.splits sum.splits pyval.splits)

lemma enter_ip: "ip (snd (enter w)) = ip w"
  by (simp add: enter_def Let_def flush_simps set_msg_id_def
        split: option.splits sum.splits pyval.splits)

lemma enter_no_context:
  "kernel_context w = None \<Longrightarrow> enter w = (Inr (), flush w)"
  by (simp add: enter_def kernel_context_def Let_def flush_simps split: option.splits)

lemma enter_context:
  "kernel_context w = Some ph \<Longrightarrow> getitem ph ''header'' = Inr h \<Longrightarrow>
   getitem h ''msg_id'' = Inr (PyStr m) \<Longrightarrow> enter w = (Inr (), (flush w)\<lparr>msg_id := m\<rparr>)"
  by (auto simp: enter_def kernel_context_def Let_def flush_simps set_msg_id_def
        split: option.splits)


text \<open>Whether \<^verbatim>\<open>__enter__\<close> succeeds depends on the host only.\<close>

lemma enter_fst_ip: "ip w = ip w' \<Longrightarrow> fst (enter w) = fst (enter w')"
  by (simp add: enter_def Let_def flush_simps set_msg_id_def
        split: option.splits sum.splits pyval.splits)

lemma notebook_context:
  "kernel_context notebook_world =
     Some (PyDict [(''header'', PyDict [(''msg_id'', PyStr ''req-1''),
                                        (''msg_type'', PyStr ''execute_request'')]),
                   (''content'', PyDict [])])"
  by (simp add: kernel_context_def notebook_world_def notebook_shell_def notebook_kernel_def
        plain_world_def)

lemma enter_notebook_ok: "fst (enter notebook_world) = Inr ()"
  using enter_context
          [OF notebook_context,
           of "PyDict [(''msg_id'', PyStr ''req-1''), (''msg_type'', PyStr ''execute_request'')]"
              "''req-1''"]
  by simp

lemma enter_error_world: "fst (enter w) = Inl e \<Longrightarrow> snd (enter w) = flush w"
  by (auto simp: enter_def Let_def set_msg_id_def
        split: option.splits sum.splits pyval.splits)



lemma enter_fresh_fails: "fst (enter fresh_world) = Inl (KeyError ''header'')"
  by (simp add: enter_def Let_def flush_simps fresh_world_def fresh_shell_def
        fresh_kernel_def plain_world_def)




lemma exit_None: "exit PyNone evalue tb w = (Inr True, (flush w)\<lparr>msg_id := []\<rparr>)"
  by (simp add: exit_def)

text \<open>
  Inside IPython, \<^verbatim>\<open>__exit__\<close> hands the exception to \<^verbatim>\<open>showtraceback\<close> once,
  flushes, resets \<open>msg_id\<close> and returns \<^verbatim>\<open>True\<close>.
\<close>

lemma exit_shell:
  "etype \<noteq> PyNone \<Longrightarrow> ip w = Some sh \<Longrightarrow>
   exit etype evalue tb w =
     (Inr True, (flush (emit [ShowTraceback etype evalue tb 0] w))\<lparr>msg_id := []\<rparr>)"
  by (simp add: exit_def)

lemma exit_shell_events:
  "etype \<noteq> PyNone \<Longrightarrow> ip w = Some sh \<Longrightarrow>
   events (snd (exit etype evalue tb w)) =
     events w @ [ShowTraceback etype evalue tb 0, FlushStdout, FlushStderr]"
  by (simp add: exit_shell flush_simps emit_def)

lemma exit_no_shell:
  "etype \<noteq> PyNone \<Longrightarrow> ip w = None \<Longrightarrow>
   exit etype evalue tb w = (Inl (AttributeError ''NoneType'' ''showtraceback''), w)"
  by (simp add: exit_def)

lemma with_self_ok:
  "fst (enter w) = Inr () \<Longrightarrow> with_self body w = leave (body (snd (enter w)))"
  by (cases "enter w") (auto simp: with_self_def)

text \<open>
  C1. Outside IPython (\<^verbatim>\<open>get_ipython()\<close> is \<^verbatim>\<open>None\<close>) \<open>exit\<close>, called for a
  \<^verbatim>\<open>ValueError\<close> raised in the scope, does not return \<^verbatim>\<open>True\<close>: it raises
  \<^verbatim>\<open>AttributeError\<close> on \<^verbatim>\<open>None.showtraceback\<close> before it flushes or resets
  \<open>msg_id\<close>, nothing is rendered, and the \<^verbatim>\<open>with\<close> statement lets that error out of
  the scope.
\<close>

theorem exit_outside_ipython:
  "exit (PyClass ''ValueError'') (PyStr ''boom'') PyTraceback plain_world =
     (Inl (AttributeError ''NoneType'' ''showtraceback''), plain_world)
   \<and> fst (with_self raising_func plain_world) =
       Inl (AttributeError ''NoneType'' ''showtraceback'')"
proof -
  have i: "ip plain_world = None"
    by (simp add: plain_world_def)
  have e: "fst (enter plain_world) = Inr ()"
    by (simp add: enter_no_context kernel_context_def i)
  have "ip (snd (enter plain_world)) = None"
    by (simp add: enter_ip i)
  then show ?thesis
    using i by (simp add: exit_no_shell with_self_ok [OF e] raising_func_def leave_def)
qed

section \<open>The capture decorator\<close>

lemma enter_keeps_outputs: "outputs_value (snd (enter w)) = outputs_value w"
  by (simp add: enter_def Let_def set_msg_id_def flush_def emit_def outputs_value_def
        split: option.splits sum.splits pyval.splits)

lemma clear_output_ok:
  assumes "fst (enter w) = Inr ()" and "clear_output_accepts a k"
  shows "clear_output a k w =
     (Inr (), (flush (emit [ClearOutput a k] (snd (enter w))))\<lparr>msg_id := []\<rparr>)"
  using assms(2)
  by (simp add: clear_output_def with_self_ok [OF assms(1)] IPython_clear_output_def leave_def
        exit_None)

text \<open>
  Arguments the host's \<^verbatim>\<open>clear_output\<close> rejects: inside IPython the \<^verbatim>\<open>TypeError\<close> is
  rendered and suppressed by the scope, and the method returns without a clear.
\<close>

lemma clear_output_rejected:
  assumes "fst (enter w) = Inr ()" and "\<not> clear_output_accepts a k" and "ip w = Some sh"
  shows "clear_output a k w =
     (Inr (),
      (flush (emit [ShowTraceback (PyClass ''TypeError'') (PyStr ''clear_output'') PyTraceback 0]
                (snd (enter w))))\<lparr>msg_id := []\<rparr>)"
proof -
  have "ip (snd (enter w)) = Some sh"
    using assms(3) by (simp add: enter_ip)
  then show ?thesis
    using assms(2)
    by (simp add: clear_output_def with_self_ok [OF assms(1)] IPython_clear_output_def
          leave_def TypeError_def exit_shell)
qed

lemma clear_output_ip:
  "fst (enter w) = Inr () \<Longrightarrow> clear_output_accepts a k \<Longrightarrow>
   ip (snd (clear_output a k w)) = ip w"
  by (simp add: clear_output_ok flush_simps emit_def enter_ip)

lemma clear_output_events:
  "fst (enter w) = Inr () \<Longrightarrow> clear_output_accepts a k \<Longrightarrow>
   events (snd (clear_output a k w)) =
     events w @ [FlushStdout, FlushStderr, ClearOutput a k, FlushStdout, FlushStderr]"
  by (simp add: clear_output_ok flush_simps emit_def enter_events)

text \<open>
  The method asks the host to clear what is displayed for the scope; it does not itself
  assign the \<^verbatim>\<open>outputs\<close> trait.
\<close>

lemma clear_output_keeps_outputs:
  "outputs_value (snd (clear_output a k w)) = outputs_value w"
proof (cases "enter w")
  case (Pair r w1)
  have o: "outputs_value w1 = outputs_value w"
    using enter_keeps_outputs [of w] Pair by simp
  show ?thesis
    using Pair o
    by (cases r)
       (auto simp: clear_output_def with_self_def IPython_clear_output_def leave_def exit_def
          flush_def emit_def outputs_value_def TypeError_def
          split: prod.splits option.splits sum.splits if_splits)
qed

lemma inner_after_clear:
  "clear_output a k w = (Inr (), w1) \<Longrightarrow>
   inner True a k func w = fall_off_end (with_self func w1)"
  by (simp add: inner_def)

lemma inner_enter_fails:
  assumes "fst (enter w) = Inl e"
  shows "inner clear a k func w = (Inl e, flush w)"
proof -
  have "enter w = (Inl e, flush w)"
    using assms enter_error_world [OF assms] by (metis prod.collapse)
  then show ?thesis
    by (simp add: inner_def clear_output_def with_self_def fall_off_end_def)
qed

lemma capture_enabled_accepts:
  assumes "fst (enter w) = Inr ()" and "clear_output_accepts a k"
  shows "inner True a k func w =
           fall_off_end (leave (func (snd (enter (snd (clear_output a k w))))))
     \<and> events (snd (enter (snd (clear_output a k w)))) =
         events w @ [FlushStdout, FlushStderr, ClearOutput a k, FlushStdout, FlushStderr,
                     FlushStdout, FlushStderr]"
proof -
  have c: "clear_output a k w = (Inr (), snd (clear_output a k w))"
    by (simp add: clear_output_ok [OF assms])
  have "fst (enter (snd (clear_output a k w))) = fst (enter w)"
    by (rule enter_fst_ip) (simp add: clear_output_ip [OF assms])
  with assms have e2: "fst (enter (snd (clear_output a k w))) = Inr ()"
    by simp
  have t: "inner True a k func w =
      fall_off_end (leave (func (snd (enter (snd (clear_output a k w))))))"
    by (simp add: inner_after_clear [OF c] with_self_ok [OF e2])
  have ev: "events (snd (enter (snd (clear_output a k w)))) =
         events w @ [FlushStdout, FlushStderr, ClearOutput a k, FlushStdout, FlushStderr,
                     FlushStdout, FlushStderr]"
    by (simp add: enter_events clear_output_events [OF assms])
  show ?thesis
    using t ev by simp
qed

lemma capture_enabled_rejected:
  assumes "fst (enter w) = Inr ()" and "\<not> clear_output_accepts a k" and "ip w = Some sh"
  shows "inner True a k func w =
           fall_off_end (leave (func (snd (enter (snd (clear_output a k w))))))
     \<and> events (snd (enter (snd (clear_output a k w)))) =
         events w @ [FlushStdout, FlushStderr,
                     ShowTraceback (PyClass ''TypeError'') (PyStr ''clear_output'') PyTraceback 0,
                     FlushStdout, FlushStderr, FlushStdout, FlushStderr]"
proof -
  note r = clear_output_rejected [OF assms]
  have c: "clear_output a k w = (Inr (), snd (clear_output a k w))"
    by (simp add: r)
  have "ip (snd (clear_output a k w)) = ip w"
    by (simp add: r flush_simps emit_def enter_ip)
  then have "fst (enter (snd (clear_output a k w))) = fst (enter w)"
    by (rule enter_fst_ip)
  with assms have e2: "fst (enter (snd (clear_output a k w))) = Inr ()"
    by simp
  have t: "inner True a k func w =
      fall_off_end (leave (func (snd (enter (snd (clear_output a k w))))))"
    by (simp add: inner_after_clear [OF c] with_self_ok [OF e2])
  have ev: "events (snd (enter (snd (clear_output a k w)))) =
         events w @ [FlushStdout, FlushStderr,
                     ShowTraceback (PyClass ''TypeError'') (PyStr ''clear_output'') PyTraceback 0,
                     FlushStdout, FlushStderr, FlushStdout, FlushStderr]"
    by (simp add: enter_events r flush_simps emit_def)
  show ?thesis
    using t ev by simp
qed

lemma enter_buffered_ok: "fst (enter buffered_world) = Inr ()"
proof -
  have "ip buffered_world = ip notebook_world"
    by (simp add: buffered_world_def append_ops_are_iadd outputs_iadd_def Let_def)
  then have "fst (enter buffered_world) = fst (enter notebook_world)"
    by (rule enter_fst_ip)
  then show ?thesis
    by (simp add: enter_notebook_ok)
qed

lemma buffered_outputs:
  "outputs_value buffered_world =
     [PyDict [(''output_type'', PyStr ''stream''), (''name'', PyStr ''stdout''),
              (''text'', PyStr ''old'')]]"
proof -
  have "outputs_value notebook_world = []"
    by (simp add: outputs_value_def notebook_world_def plain_world_def)
  then show ?thesis
    by (simp add: buffered_world_def append_ops_are_iadd outputs_iadd_value)
qed

text \<open>
  C8 as stated has the wrapper clear the widget's buffered output before the call. The
  wrapper made with the default arguments, around a function that returns the records it
  finds in the buffer, returns the record that was buffered before the call: the function
  ran with the buffer as it was.
\<close>

theorem capture_keeps_buffer_counterexample:
  "outputs_value buffered_world =
     [PyDict [(''output_type'', PyStr ''stream''), (''name'', PyStr ''stdout''),
              (''text'', PyStr ''old'')]]
   \<and> fst (capture None [] [] peek_func buffered_world) =
       Inr (PyTuple [PyDict [(''output_type'', PyStr ''stream''), (''name'', PyStr ''stdout''),
                             (''text'', PyStr ''old'')]])"
proof -
  have a: "clear_output_accepts [] []"
    by simp
  have "outputs_value (snd (enter (snd (clear_output [] [] buffered_world)))) =
      outputs_value buffered_world"
    by (simp add: enter_keeps_outputs clear_output_keeps_outputs)
  then show ?thesis
    using capture_enabled_accepts [OF enter_buffered_ok a, of peek_func]
    by (simp add: capture_def buffered_outputs peek_func_def leave_def exit_None
          fall_off_end_def)
qed

text \<open>
  C8, as amended. A wrapper made by \<open>capture\<close> without the flag is the one made with
  \<^verbatim>\<open>True\<close>. Where the scope can be entered and the host's \<^verbatim>\<open>clear_output\<close>
  accepts the outer arguments, the wrapper with clearing enabled first runs the widget's
  \<open>clear_output\<close> to completion and only then runs the wrapped function inside a capture
  scope: the function starts after the host calls flush, clear, flush (the clear request,
  in a scope of its own) and the flush of its own scope entry, and the \<^verbatim>\<open>outputs\<close>
  trait is as it was, the request does not empty it. With clearing disabled the function
  starts right after the flush of the scope entry: no clear has been requested. Inside
  IPython, outer arguments the host rejects make the clear step render a
  \<^verbatim>\<open>TypeError\<close> in place of the clear request, and the function runs all the same. If
  the scope cannot be entered, the wrapper raises the entry's exception after the first
  flush, with no clear request and without running the function.
\<close>

theorem capture_clears_before_call:
  "capture None a k func w = capture (Some True) a k func w
   \<and> (fst (enter w) = Inr () \<and> clear_output_accepts a k \<longrightarrow>
        capture (Some True) a k func w =
          fall_off_end (leave (func (snd (enter (snd (clear_output a k w))))))
        \<and> events (snd (enter (snd (clear_output a k w)))) =
            events w @ [FlushStdout, FlushStderr, ClearOutput a k, FlushStdout, FlushStderr,
                        FlushStdout, FlushStderr]
        \<and> outputs_value (snd (enter (snd (clear_output a k w)))) = outputs_value w)
   \<and> (fst (enter w) = Inr () \<longrightarrow>
        capture (Some False) a k func w = fall_off_end (leave (func (snd (enter w))))
        \<and> events (snd (enter w)) = events w @ [FlushStdout, FlushStderr])
   \<and> (\<forall>sh. fst (enter w) = Inr () \<and> \<not> clear_output_accepts a k \<and> ip w = Some sh \<longrightarrow>
        capture (Some True) a k func w =
          fall_off_end (leave (func (snd (enter (snd (clear_output a k w))))))
        \<and> events (snd (enter (snd (clear_output a k w)))) =
            events w @ [FlushStdout, FlushStderr,
                        ShowTraceback (PyClass ''TypeError'') (PyStr ''clear_output'')
                          PyTraceback 0,
                        FlushStdout, FlushStderr, FlushStdout, FlushStderr])
   \<and> (\<forall>e. fst (enter w) = Inl e \<longrightarrow>
        capture (Some True) a k func w = (Inl e, flush w)
        \<and> capture (Some False) a k func w = (Inl e, flush w))"
proof -
  have d: "capture None a k func w = capture (Some True) a k func w"
    by (simp add: capture_def)
  have f: "fst (enter w) = Inr () \<longrightarrow>
        capture (Some False) a k func w = fall_off_end (leave (func (snd (enter w))))"
    by (simp add: capture_def inner_def with_self_ok)
  have o: "outputs_value (snd (enter (snd (clear_output a k w)))) = outputs_value w"
    by (simp add: enter_keeps_outputs clear_output_keeps_outputs)
  show ?thesis
    using d f o capture_enabled_accepts [of w a k func]
      capture_enabled_rejected [of w a k _ func] inner_enter_fails [of w _ _ a k func]
    by (simp add: capture_def enter_events)
qed

theorem capture_clears_before_call_witness:
  "fst (enter notebook_world) = Inr () \<and> clear_output_accepts [] []
   \<and> fst (capture (Some True) [] [] printing_func notebook_world) = Inr (PyStr ''done'')
   \<and> events (snd (enter (snd (clear_output [] [] notebook_world)))) =
         [FlushStdout, FlushStderr, ClearOutput [] [], FlushStdout, FlushStderr,
          FlushStdout, FlushStderr]
   \<and> fst (capture (Some False) [] [] printing_func notebook_world) = Inr (PyStr ''done'')
   \<and> events (snd (enter notebook_world)) = [FlushStdout, FlushStderr]
   \<and> \<not> clear_output_accepts [PyNone, PyNone] [] \<and> ip notebook_world = Some notebook_shell
   \<and> fst (capture (Some True) [PyNone, PyNone] [] printing_func notebook_world)
       = Inr (PyStr ''done'')
   \<and> fst (enter fresh_world) = Inl (KeyError ''header'')
   \<and> fst (capture (Some True) [] [] printing_func fresh_world) = Inl (KeyError ''header'')"
proof -
  have ev: "events notebook_world = []" and i: "ip notebook_world = Some notebook_shell"
    by (simp_all add: notebook_world_def plain_world_def)
  have r: "fst (fall_off_end (leave (printing_func w1))) = Inr (PyStr ''done'')" for w1
    by (simp add: printing_func_def leave_def exit_None fall_off_end_def)
  have a: "fst (capture (Some True) [] [] printing_func notebook_world) = Inr (PyStr ''done'')
      \<and> events (snd (enter (snd (clear_output [] [] notebook_world)))) =
         [FlushStdout, FlushStderr, ClearOutput [] [], FlushStdout, FlushStderr,
          FlushStdout, FlushStderr]
      \<and> fst (capture (Some False) [] [] printing_func notebook_world) = Inr (PyStr ''done'')
      \<and> events (snd (enter notebook_world)) = [FlushStdout, FlushStderr]"
    using capture_clears_before_call [of "[]" "[]" printing_func notebook_world]
      enter_notebook_ok ev r
    by simp
  have b: "fst (capture (Some True) [PyNone, PyNone] [] printing_func notebook_world)
       = Inr (PyStr ''done'')"
    using capture_clears_before_call [of "[PyNone, PyNone]" "[]" printing_func notebook_world]
      enter_notebook_ok i r
    by simp
  have c: "fst (capture (Some True) [] [] printing_func fresh_world) = Inl (KeyError ''header'')"
    using capture_clears_before_call [of "[]" "[]" printing_func fresh_world] enter_fresh_fails
    by simp
  show ?thesis
    using a b c enter_notebook_ok enter_fresh_fails i by simp
qed

text \<open>
  Inside IPython a wrapper whose function raises renders the exception once and returns
  \<^verbatim>\<open>None\<close>.
\<close>

lemma capture_suppresses_in_shell:
  assumes "fst (enter w) = Inr ()" and "func (snd (enter w)) = (Inl x, w2)"
    and "ip w2 = Some sh"
  shows "capture (Some False) a k func w =
     (Inr PyNone,
      (flush (emit [ShowTraceback (PyClass (exn_class x)) (exn_value x) (exn_tb x) 0] w2))
        \<lparr>msg_id := []\<rparr>)"
  using assms
  by (simp add: capture_def inner_def with_self_ok leave_def exit_shell fall_off_end_def)

text \<open>
  C10. Outside IPython (\<^verbatim>\<open>get_ipython()\<close> is \<^verbatim>\<open>None\<close>) a wrapper made by
  \<open>capture\<close> whose function raises \<^verbatim>\<open>ValueError\<close> does not return \<^verbatim>\<open>None\<close>: the
  call raises the \<^verbatim>\<open>AttributeError\<close> of \<^verbatim>\<open>None.showtraceback\<close> that \<open>exit\<close>
  runs into.
\<close>

theorem capture_outside_ipython:
  "fst (capture None [] [] raising_func plain_world) =
     Inl (AttributeError ''NoneType'' ''showtraceback'')"
proof -
  have i: "ip plain_world = None"
    by (simp add: plain_world_def)
  have e: "fst (enter plain_world) = Inr ()"
    by (simp add: enter_no_context kernel_context_def i)
  have c: "clear_output [] [] plain_world = (Inr (), snd (clear_output [] [] plain_world))"
    by (simp add: clear_output_ok [OF e])
  have i2: "ip (snd (clear_output [] [] plain_world)) = None"
    by (simp add: clear_output_ip [OF e] i)
  have e2: "fst (enter (snd (clear_output [] [] plain_world))) = Inr ()"
    by (simp add: enter_no_context kernel_context_def i2)
  have "ip (snd (enter (snd (clear_output [] [] plain_world)))) = None"
    by (simp add: enter_ip i2)
  then show ?thesis
    by (simp add: capture_def inner_after_clear [OF c] with_self_ok [OF e2] raising_func_def
          leave_def exit_no_shell fall_off_end_def)
qed

section \<open>The package entry point\<close>

text \<open>
  C6. Whatever \<^verbatim>\<open>os.path\<close> does, \<open>find_static_assets\<close> does not return a path: reading
  the name \<^verbatim>\<open>path\<close>, bound neither in the module nor among the built-ins, raises
  \<^verbatim>\<open>NameError\<close>.
\<close>

theorem find_static_assets_raises: "find_static_assets os = Inl (NameError ''path'')"
  by (simp add: find_static_assets_def load_global_def module_globals_def
        builtin_names_def Let_def)

lemma register_comm_target_Some:
  "register_comm_target (Some k) w =
     (Inr (), register_target (kernel_id k) ''ipython.widget'' Widget_handle_comm_opened w)"
  by (simp add: register_comm_target_def)

lemma register_comm_target_None:
  "\<exists>tyname attr. register_comm_target None w = (Inl (AttributeError tyname attr), w)"
  by (auto simp: register_comm_target_def split: option.splits)

lemma register_target_effect:
  "events (register_target kid name f w) = events w @ [RegisterTarget kid name f]"
  "comm_targets (register_target kid name f w) kid name = Some f"
  by (simp_all add: register_target_def emit_def)

lemma load_ipython_extension_cases:
  "kernel sh = None \<Longrightarrow> load_ipython_extension sh w = (Inr (), w)"
  "kernel sh = Some None \<Longrightarrow> load_ipython_extension sh w = register_comm_target None w"
  "kernel sh = Some (Some k) \<Longrightarrow>
   load_ipython_extension sh w =
     (Inr (), register_target (kernel_id k) ''ipython.widget'' Widget_handle_comm_opened w)"
  by (simp_all add: load_ipython_extension_def register_comm_target_Some
        split: prod.splits sum.splits)

text \<open>
  C5 as stated has the target registered whenever the shell has the attribute
  \<^verbatim>\<open>kernel\<close>. For a shell whose attribute is \<^verbatim>\<open>None\<close> the test \<^verbatim>\<open>hasattr\<close>
  passes, \<^verbatim>\<open>None\<close> is handed to \<open>register_comm_target\<close>, and the call raises on
  \<^verbatim>\<open>None.comm_manager\<close>: no target is registered.
\<close>

theorem load_ipython_extension_counterexample:
  "kernel detached_shell \<noteq> None
   \<and> fst (load_ipython_extension detached_shell detached_world) =
       Inl (AttributeError ''NoneType'' ''comm_manager'')
   \<and> events (snd (load_ipython_extension detached_shell detached_world)) = []"
  by (simp add: load_ipython_extension_def register_comm_target_def detached_shell_def
        detached_world_def plain_world_def)

text \<open>
  C5, as amended. If the attribute \<^verbatim>\<open>kernel\<close> of the shell holds a kernel,
  \<open>load_ipython_extension\<close> returns after one call of \<^verbatim>\<open>register_target\<close> on that
  kernel's comm manager, which binds \<^verbatim>\<open>'ipython.widget'\<close> to
  \<^verbatim>\<open>Widget.handle_comm_opened\<close>; if the shell has no attribute \<^verbatim>\<open>kernel\<close>, it returns
  with the world unchanged; if the attribute is \<^verbatim>\<open>None\<close>, it raises
  \<^verbatim>\<open>AttributeError\<close> with the world unchanged. So the call registers the target if and
  only if the shell has a \<^verbatim>\<open>kernel\<close> attribute that holds a kernel.
\<close>

theorem load_ipython_extension_registers:
  "(\<forall>k. kernel sh = Some (Some k) \<longrightarrow>
      load_ipython_extension sh w =
        (Inr (), register_target (kernel_id k) ''ipython.widget'' Widget_handle_comm_opened w)
      \<and> events (snd (load_ipython_extension sh w)) =
          events w @ [RegisterTarget (kernel_id k) ''ipython.widget'' Widget_handle_comm_opened]
      \<and> comm_targets (snd (load_ipython_extension sh w)) (kernel_id k) ''ipython.widget''
          = Some Widget_handle_comm_opened)
   \<and> (kernel sh = None \<longrightarrow> load_ipython_extension sh w = (Inr (), w))
   \<and> (kernel sh = Some None \<longrightarrow>
        (\<exists>tyname attr. load_ipython_extension sh w = (Inl (AttributeError tyname attr), w)))
   \<and> ((\<exists>kid. RegisterTarget kid ''ipython.widget'' Widget_handle_comm_opened
              \<in> set (drop (length (events w)) (events (snd (load_ipython_extension sh w)))))
        \<longleftrightarrow> (\<exists>k. kernel sh = Some (Some k)))"
proof (cases "kernel sh")
  case None
  then show ?thesis
    by (simp add: load_ipython_extension_cases)
next
  case (Some kernel_value)
  show ?thesis
  proof (cases kernel_value)
    case None
    with Some have n: "kernel sh = Some None"
      by simp
    obtain tyname attr where
      "load_ipython_extension sh w = (Inl (AttributeError tyname attr), w)"
      using register_comm_target_None [of w] load_ipython_extension_cases(2) [OF n, of w]
      by auto
    then show ?thesis
      using n by auto
  next
    case (Some k)
    with \<open>kernel sh = Some kernel_value\<close> have "kernel sh = Some (Some k)"
      by simp
    then show ?thesis
      by (simp add: load_ipython_extension_cases register_target_effect)
  qed
qed

theorem load_ipython_extension_registers_witness:
  "kernel notebook_shell = Some (Some notebook_kernel)
   \<and> events (snd (load_ipython_extension notebook_shell notebook_world)) =
       [RegisterTarget 7 ''ipython.widget'' Widget_handle_comm_opened]
   \<and> comm_targets (snd (load_ipython_extension notebook_shell notebook_world)) 7
       ''ipython.widget'' = Some Widget_handle_comm_opened
   \<and> kernel terminal_shell = None
   \<and> load_ipython_extension terminal_shell terminal_world = (Inr (), terminal_world)
   \<and> kernel detached_shell = Some None
   \<and> (\<exists>tyname attr. load_ipython_extension detached_shell detached_world =
         (Inl (AttributeError tyname attr), detached_world))"
proof -
  have k: "kernel notebook_shell = Some (Some notebook_kernel)"
    by (simp add: notebook_shell_def)
  have kid: "kernel_id notebook_kernel = 7"
    by (simp add: notebook_kernel_def)
  have ev: "events notebook_world = []"
    by (simp add: notebook_world_def plain_world_def)
  have t: "kernel terminal_shell = None"
    by (simp add: terminal_shell_def)
  have d: "kernel detached_shell = Some None"
    by (simp add: detached_shell_def)
  show ?thesis
    using load_ipython_extension_registers [of notebook_shell notebook_world]
      load_ipython_extension_registers [of terminal_shell terminal_world]
      load_ipython_extension_registers [of detached_shell detached_world] k kid ev t d
    by (simp add: register_target_effect)
qed

text \<open>
  C9 as stated says the failure is always an attribute error on \<^verbatim>\<open>None\<close>. In a
  terminal IPython session \<^verbatim>\<open>register_comm_target()\<close> fails on the shell instead:
  the shell has no attribute \<^verbatim>\<open>kernel\<close>.
\<close>

theorem register_comm_target_default_counterexample:
  "fst (register_comm_target None terminal_world)
     = Inl (AttributeError ''TerminalInteractiveShell'' ''kernel'')
   \<and> fst (register_comm_target None terminal_world)
       \<noteq> Inl (AttributeError ''NoneType'' ''kernel'')
   \<and> fst (register_comm_target None terminal_world)
       \<noteq> Inl (AttributeError ''NoneType'' ''comm_manager'')"
  by (simp add: register_comm_target_def terminal_world_def terminal_shell_def plain_world_def
        AttributeError_def)

text \<open>
  C9, as amended. \<open>register_comm_target\<close> without a kernel argument always fails with an
  \<^verbatim>\<open>AttributeError\<close> and registers nothing: on \<^verbatim>\<open>None.kernel\<close> when there is no
  shell, on the shell's missing attribute \<^verbatim>\<open>kernel\<close> when the shell has none, and on
  \<^verbatim>\<open>None.comm_manager\<close> when the shell has a kernel, since that kernel is bound to a
  local that is not used.
\<close>

theorem register_comm_target_default_fails:
  "register_comm_target None w =
     (Inl (case ip w of
             None \<Rightarrow> AttributeError ''NoneType'' ''kernel''
           | Some sh \<Rightarrow>
               (case kernel sh of
                  None \<Rightarrow> AttributeError (shell_class sh) ''kernel''
                | Some k \<Rightarrow> AttributeError ''NoneType'' ''comm_manager'')), w)"
  by (simp add: register_comm_target_def split: option.splits)

end
